theory Spec2Isabelle
  imports Main
begin

section \<open>Run-time values, exceptions and the host interpreter\<close>

text \<open>
  The module \<^verbatim>\<open>genshi/template/eval.py\<close> runs inside a Python 2 interpreter. The
  exceptions the module catches or raises are the constructors of \<open>exn\<close>; an
  \<open>UndefinedError\<close> carries the message built by \<^verbatim>\<open>UndefinedError.__init__\<close>. Any
  other exception of the host is \<open>OtherError\<close> with its class name.
\<close>

datatype exn =
    AttributeError
  | KeyError
  | IndexError
  | TypeError
  | NotImplementedError
  | UndefinedError string
  | OtherError string

text \<open>
  Values: text (\<^verbatim>\<open>basestring\<close> instances), integers, tuples, instances of the class
  \<^verbatim>\<open>Undefined\<close> with their two slots \<^verbatim>\<open>_name\<close> and \<^verbatim>\<open>_owner\<close> (the owner is
  \<open>None\<close> when the slot holds the module's private sentinel \<^verbatim>\<open>UNDEFINED\<close>), the two
  classes the module adds to the built-in namespace, and every other object of the host
  as a reference. The sentinel \<^verbatim>\<open>UNDEFINED = object()\<close> itself is private to the module
  and is not a value of a context.
\<close>

datatype val =
    Str string
  | Num int
  | Tuple "val list"
  | UndefinedV string "val option"
  | MarkupClass
  | UndefinedClass
  | Ref nat

text \<open>
  What the module asks of the interpreter: \<^verbatim>\<open>getattr(obj, key)\<close>,
  \<^verbatim>\<open>hasattr(obj.__class__, key)\<close>, \<^verbatim>\<open>obj[key]\<close>, \<^verbatim>\<open>repr(obj)\<close> and the dictionary
  \<^verbatim>\<open>__builtin__.__dict__\<close>. They are parameters of the model: a result is a value or
  the exception raised. The functions of this module are stated for every such
  interpreter.
\<close>

record host =
  py_getattr :: "val \<Rightarrow> string \<Rightarrow> exn + val"
  py_hasattr_class :: "val \<Rightarrow> string \<Rightarrow> bool"
  py_getitem :: "val \<Rightarrow> val \<Rightarrow> exn + val"
  py_repr :: "val \<Rightarrow> string"
  py_builtins :: "string \<rightharpoonup> val"

type_synonym py_context = "string \<rightharpoonup> val"

definition dq :: string where
  "dq = [CHR 0x22]"

subsection \<open>UndefinedError and Undefined\<close>

text \<open>
  \<^verbatim>\<open>UndefinedError.__init__(self, name, owner=UNDEFINED)\<close>: the message is
  \<^verbatim>\<open>'%s has no member named "%s"' % (repr(owner), name)\<close> when an owner is given and
  \<^verbatim>\<open>'"%s" not defined' % name\<close> otherwise.
\<close>

definition UndefinedError_message :: "host \<Rightarrow> string \<Rightarrow> val option \<Rightarrow> string" where
  "UndefinedError_message h name owner =
     (case owner of
        Some ow \<Rightarrow> py_repr h ow @ '' has no member named '' @ dq @ name @ dq
      | None \<Rightarrow> dq @ name @ dq @ '' not defined'')"

definition UndefinedError_init :: "host \<Rightarrow> string \<Rightarrow> val option \<Rightarrow> exn" where
  "UndefinedError_init h name owner = UndefinedError (UndefinedError_message h name owner)"


definition Undefined_nonzero :: "string \<times> val option \<Rightarrow> bool" where
  "Undefined_nonzero self = False"

definition Undefined_str :: "string \<times> val option \<Rightarrow> string" where
  "Undefined_str self = ''undefined''"

definition Undefined_die :: "host \<Rightarrow> string \<times> val option \<Rightarrow> exn + val" where
  "Undefined_die h self = Inl (UndefinedError_init h (fst self) (snd self))"

text \<open>\<^verbatim>\<open>__call__ = __getattr__ = __getitem__ = _die\<close>; \<^verbatim>\<open>_die\<close> ignores its arguments.\<close>

definition Undefined_call :: "host \<Rightarrow> string \<times> val option \<Rightarrow> val list \<Rightarrow> exn + val" where
  "Undefined_call h self args = Undefined_die h self"




subsection \<open>Lookup classes\<close>

text \<open>
  \<^verbatim>\<open>LookupBase\<close> and its two subclasses; a custom subclass is given by its own
  \<^verbatim>\<open>undefined\<close> class method.
\<close>

datatype lookup_class =
    LookupBase
  | LenientLookup
  | StrictLookup
  | CustomLookup "string \<Rightarrow> val option \<Rightarrow> exn + val"

fun lookup_undefined :: "lookup_class \<Rightarrow> host \<Rightarrow> string \<Rightarrow> val option \<Rightarrow> exn + val" where
  "lookup_undefined LookupBase h key owner = Inl NotImplementedError"
| "lookup_undefined LenientLookup h key owner = Inr (UndefinedV key owner)"
| "lookup_undefined StrictLookup h key owner = Inl (UndefinedError_init h key owner)"
| "lookup_undefined (CustomLookup f) h key owner = f key owner"

text \<open>
  \<^verbatim>\<open>BUILTINS = __builtin__.__dict__.copy()\<close> followed by
  \<^verbatim>\<open>BUILTINS.update({'Markup': Markup, 'Undefined': Undefined})\<close>.
\<close>

definition BUILTINS :: "host \<Rightarrow> string \<rightharpoonup> val" where
  "BUILTINS h = (py_builtins h)(''Markup'' \<mapsto> MarkupClass, ''Undefined'' \<mapsto> UndefinedClass)"

definition lookup_name :: "lookup_class \<Rightarrow> host \<Rightarrow> py_context \<Rightarrow> string \<Rightarrow> exn + val" where
  "lookup_name cls h data name =
     (case data name of
        Some v \<Rightarrow> Inr v
      | None \<Rightarrow>
          (case BUILTINS h name of
             Some v \<Rightarrow> Inr v
           | None \<Rightarrow> lookup_undefined cls h name None))"

definition lookup_attr :: "lookup_class \<Rightarrow> host \<Rightarrow> val \<Rightarrow> string \<Rightarrow> exn + val" where
  "lookup_attr cls h obj key =
     (case py_getattr h obj key of
        Inr v \<Rightarrow> Inr v
      | Inl e \<Rightarrow>
          if e = AttributeError then
            (if py_hasattr_class h obj key then Inl e
             else
               (case py_getitem h obj (Str key) of
                  Inr v \<Rightarrow> Inr v
                | Inl e' \<Rightarrow>
                    if e' = KeyError \<or> e' = TypeError then lookup_undefined cls h key (Some obj)
                    else Inl e'))
          else Inl e)"

text \<open>
  \<^verbatim>\<open>getattr(obj, key, UNDEFINED)\<close>: the default replaces an \<^verbatim>\<open>AttributeError\<close> only.
\<close>

definition getattr_default :: "host \<Rightarrow> val \<Rightarrow> string \<Rightarrow> exn + val option" where
  "getattr_default h obj key =
     (case py_getattr h obj key of
        Inr v \<Rightarrow> Inr (Some v)
      | Inl e \<Rightarrow> if e = AttributeError then Inr None else Inl e)"

text \<open>
  \<^verbatim>\<open>lookup_item(cls, obj, key)\<close>: the rewriter always passes a tuple as \<open>key\<close>, given
  here by its elements.
\<close>

definition unwrap_key :: "val list \<Rightarrow> val" where
  "unwrap_key keys = (case keys of [k] \<Rightarrow> k | _ \<Rightarrow> Tuple keys)"

definition lookup_item :: "lookup_class \<Rightarrow> host \<Rightarrow> val \<Rightarrow> val list \<Rightarrow> exn + val" where
  "lookup_item cls h obj keys =
     (let key = unwrap_key keys in
      case py_getitem h obj key of
        Inr v \<Rightarrow> Inr v
      | Inl e \<Rightarrow>
          if e = AttributeError \<or> e = KeyError \<or> e = IndexError \<or> e = TypeError then
            (case key of
               Str s \<Rightarrow>
                 (case getattr_default h obj s of
                    Inl e' \<Rightarrow> Inl e'
                  | Inr (Some v) \<Rightarrow> Inr v
                  | Inr None \<Rightarrow> lookup_undefined cls h s (Some obj))
             | _ \<Rightarrow> Inl e)
          else Inl e)"

section \<open>Syntax trees\<close>

text \<open>
  The node classes of Python 2's \<^verbatim>\<open>_ast\<close> module that the rewriter treats specially and
  a representative set of those it only clones, with their fields in the order of
  \<^verbatim>\<open>_fields\<close>. Source positions are left out.
\<close>

datatype expr_context = Load | Store | Del | AugLoad | AugStore | Param

datatype operator = Add | Sub | Mult | Div | Mod

datatype expr =
    BinOp expr operator expr
  | Lambda arguments expr
  | IfExp expr expr expr
  | ListComp expr "comprehension list"
  | GeneratorExp expr "comprehension list"
  | Call expr "expr list" "keyword list" "expr option" "expr option"
  | NumE int
  | StrE string
  | Attribute expr string expr_context
  | Subscript expr slice expr_context
  | Name string expr_context
  | ListE "expr list" expr_context
  | TupleE "expr list" expr_context
and slice =
    Slice "expr option" "expr option" "expr option"
  | Index expr
and comprehension =
    Comprehension expr expr "expr list"
and arguments =
    Arguments "expr list" "string option" "string option" "expr list"
and keyword =
    Keyword string expr

datatype stmt =
    FunctionDef string arguments "stmt list" "expr list"
  | ClassDef string "expr list" "stmt list" "expr list"
  | Return "expr option"
  | Assign "expr list" expr
  | For expr expr "stmt list" "stmt list"
  | If expr "stmt list" "stmt list"
  | Expr expr
  | Pass

datatype py_mod = Module "stmt list" | Expression expr

section \<open>The scope stack\<close>

text \<open>
  \<^verbatim>\<open>self.locals\<close>: a list of sets of names, innermost last. A visitor method returns its
  result, or the exception it raised, together with the list as it has left it.
\<close>

type_synonym scopes = "string set list"

type_synonym 'a res = "(exn + 'a) \<times> scopes"

definition CONSTANTS :: "string set" where
  "CONSTANTS = {''False'', ''True'', ''None'', ''NotImplemented'', ''Ellipsis''}"

text \<open>
  Modelled from the spec: \<^verbatim>\<open>genshi.util.flatten\<close> is not among the source files. The
  rewriter tests \<^verbatim>\<open>node.id not in flatten(self.locals)\<close>, which the specification
  gives as "the identifier is not in any entry of the ScopeStack".
\<close>

definition flatten :: "scopes \<Rightarrow> string set" where
  "flatten ls = \<Union> (set ls)"

text \<open>\<^verbatim>\<open>if len(self.locals) > 1: self.locals[-1].add(name)\<close>\<close>

definition add_local :: "string \<Rightarrow> scopes \<Rightarrow> scopes" where
  "add_local name ls =
     (if length ls > 1 then ls[length ls - 1 := insert name (last ls)] else ls)"

text \<open>
  \<^verbatim>\<open>try: ... finally: self.locals.pop()\<close>: the pop runs whether or not the body raised;
  popping an empty list raises \<^verbatim>\<open>IndexError\<close>.
\<close>

definition finally_pop :: "'a res \<Rightarrow> 'a res" where
  "finally_pop r =
     (case r of (x, ls) \<Rightarrow> if ls = [] then (Inl IndexError, ls) else (x, butlast ls))"

text \<open>\<^verbatim>\<open>del self.locals[-n:]\<close>; with \<open>n = 0\<close> the slice is the whole list.\<close>

definition del_last :: "nat \<Rightarrow> scopes \<Rightarrow> scopes" where
  "del_last n ls = (if n = 0 then [] else take (length ls - n) ls)"

definition bind_res :: "'a res \<Rightarrow> ('a \<Rightarrow> scopes \<Rightarrow> 'b res) \<Rightarrow> 'b res" where
  "bind_res r f = (case r of (Inl e, ls) \<Rightarrow> (Inl e, ls) | (Inr v, ls) \<Rightarrow> f v ls)"

lemma bind_res_cong [fundef_cong]:
  "r = r' \<Longrightarrow> (\<And>v ls. r' = (Inr v, ls) \<Longrightarrow> f v ls = f' v ls) \<Longrightarrow> bind_res r f = bind_res r' f'"
  by (auto simp: bind_res_def split: prod.splits sum.splits)

text \<open>
  \<^verbatim>\<open>_extract_names(node)\<close>, called with an \<^verbatim>\<open>arguments\<close> node. The inner
  \<^verbatim>\<open>_process\<close> calls itself on the tuple, not on its element, for every element of a
  tuple parameter: with an element present the recursion ends in the interpreter's
  \<^verbatim>\<open>RuntimeError\<close>. An \<^verbatim>\<open>arguments\<close> node has the fields \<^verbatim>\<open>args\<close>, \<^verbatim>\<open>vararg\<close>,
  \<^verbatim>\<open>kwarg\<close> and \<^verbatim>\<open>defaults\<close>, so \<^verbatim>\<open>getattr(node, 'varargs', None)\<close> and
  \<^verbatim>\<open>getattr(node, 'kwargs', None)\<close> are both \<^verbatim>\<open>None\<close> and neither branch is taken.
\<close>

definition process :: "expr \<Rightarrow> exn + string set" where
  "process node =
     (case node of
        Name ident c \<Rightarrow> Inr {ident}
      | TupleE elts c \<Rightarrow> if elts = [] then Inr {} else Inl (OtherError ''RuntimeError'')
      | _ \<Rightarrow> Inr {})"

fun process_all :: "expr list \<Rightarrow> string set \<Rightarrow> exn + string set" where
  "process_all [] acc = Inr acc"
| "process_all (a # as) acc =
     (case process a of Inl e \<Rightarrow> Inl e | Inr s \<Rightarrow> process_all as (acc \<union> s))"

definition extract_names :: "arguments \<Rightarrow> exn + string set" where
  "extract_names node = (case node of Arguments args vararg kwarg defaults \<Rightarrow> process_all args {})"

section \<open>The rewriter\<close>

text \<open>
  \<^verbatim>\<open>ExpressionASTTransformer\<close> is chosen by \<^verbatim>\<open>_compile\<close> for mode \<^verbatim>\<open>'eval'\<close>,
  \<^verbatim>\<open>TemplateASTTransformer\<close> for every other mode.
\<close>

datatype mode = Eval | Exec

definition return_res :: "'a \<Rightarrow> scopes \<Rightarrow> 'a res" where
  "return_res v ls = (Inr v, ls)"

definition push_names :: "arguments \<Rightarrow> scopes \<Rightarrow> unit res" where
  "push_names args ls =
     (case extract_names args of Inl e \<Rightarrow> (Inl e, ls) | Inr s \<Rightarrow> (Inr (), ls @ [s]))"

definition lookup_name_call :: "string \<Rightarrow> expr" where
  "lookup_name_call ident =
     Call (Name ''_lookup_name'' Load) [Name ''__data__'' Load, StrE ident] [] None None"

definition lookup_attr_call :: "expr \<Rightarrow> string \<Rightarrow> expr" where
  "lookup_attr_call v attr = Call (Name ''_lookup_attr'' Load) [v, StrE attr] [] None None"

definition lookup_item_call :: "expr \<Rightarrow> expr list \<Rightarrow> expr" where
  "lookup_item_call v inds =
     Call (Name ''_lookup_item'' Load) [v, TupleE inds Load] [] None None"

definition visitName :: "string \<Rightarrow> expr_context \<Rightarrow> scopes \<Rightarrow> expr res" where
  "visitName ident c ls =
     (if (c = Load \<or> c = AugLoad) \<and> ident \<notin> flatten ls then (Inr (lookup_name_call ident), ls)
      else if c = Store \<or> c = AugStore then (Inr (Name ident c), add_local ident ls)
      else (Inr (Name ident c), ls))"

text \<open>
  A list of child nodes is visited from left to right
  (\<^verbatim>\<open>[self.visit(x) for x in value]\<close>); \<open>None\<close> is returned as it is.
\<close>

fun visit_each :: "(scopes \<Rightarrow> 'a res) list \<Rightarrow> scopes \<Rightarrow> 'a list res" where
  "visit_each [] ls = (Inr [], ls)"
| "visit_each (f # fs) ls =
     bind_res (f ls) (\<lambda>x ls.
     bind_res (visit_each fs ls) (\<lambda>xs ls.
     return_res (x # xs) ls))"

definition visit_maybe :: "(scopes \<Rightarrow> 'a res) option \<Rightarrow> scopes \<Rightarrow> 'a option res" where
  "visit_maybe f ls =
     (case f of
        None \<Rightarrow> (Inr None, ls)
      | Some g \<Rightarrow> bind_res (g ls) (\<lambda>x ls. return_res (Some x) ls))"

text \<open>
  The loop of \<^verbatim>\<open>visitGeneratorExp\<close>: the clauses are taken in inverse order
  (\<^verbatim>\<open>node.generators[::-1]\<close>), each clone is appended to \<^verbatim>\<open>gens\<close>, and
  \<^verbatim>\<open>gens.reverse()\<close> follows the loop.
\<close>

definition visit_generators :: "(scopes \<Rightarrow> 'a res) list \<Rightarrow> scopes \<Rightarrow> 'a list res" where
  "visit_generators generators ls =
     bind_res (visit_each (rev generators) ls) (\<lambda>gens ls.
     return_res (rev gens) ls)"

text \<open>
  In \<^verbatim>\<open>ExpressionASTTransformer.visitAttribute\<close> and \<^verbatim>\<open>visitSubscript\<close> the test
  \<^verbatim>\<open>node.ctx != _ast.Load and node.ctx == _ast.AugLoad\<close> compares a context instance
  with a class and is false for every node, so an attribute is rewritten in every
  context, and a subscript is whenever its slice is an \<^verbatim>\<open>Index\<close>; the index is visited
  before the value.
\<close>

text \<open>
  \<open>visit\<close> dispatches on the node class. A class without a method of its own is cloned
  field by field, in the order of \<^verbatim>\<open>_fields\<close>; numbers, operators, contexts,
  identifiers and \<^verbatim>\<open>Pass\<close> are returned as they are. \<open>visit_comprehension\<close> is the body
  of the loop of \<^verbatim>\<open>visitGeneratorExp\<close> for one clause.
\<close>

primrec visit :: "mode \<Rightarrow> expr \<Rightarrow> scopes \<Rightarrow> expr res"
  and visit_slice :: "mode \<Rightarrow> slice \<Rightarrow> scopes \<Rightarrow> slice res"
  and visit_comprehension :: "mode \<Rightarrow> comprehension \<Rightarrow> scopes \<Rightarrow> comprehension res"
  and visit_arguments :: "mode \<Rightarrow> arguments \<Rightarrow> scopes \<Rightarrow> arguments res"
  and visit_keyword :: "mode \<Rightarrow> keyword \<Rightarrow> scopes \<Rightarrow> keyword res"
where
  "visit m (Name ident c) = visitName ident c"
| "visit m (StrE s) = return_res (StrE s)"
| "visit m (NumE n) = return_res (NumE n)"
| "visit m (BinOp a oper b) = (\<lambda>ls.
     bind_res (visit m a ls) (\<lambda>a' ls.
     bind_res (visit m b ls) (\<lambda>b' ls.
     return_res (BinOp a' oper b') ls)))"
| "visit m (IfExp t a b) = (\<lambda>ls.
     bind_res (visit m t ls) (\<lambda>t' ls.
     bind_res (visit m a ls) (\<lambda>a' ls.
     bind_res (visit m b ls) (\<lambda>b' ls.
     return_res (IfExp t' a' b') ls))))"
| "visit m (Lambda args body) = (\<lambda>ls.
     bind_res (push_names args ls) (\<lambda>u ls.
     finally_pop
       (bind_res (visit_arguments m args ls) (\<lambda>args' ls.
        bind_res (visit m body ls) (\<lambda>body' ls.
        return_res (Lambda args' body') ls)))))"
| "visit m (GeneratorExp elt generators) = (\<lambda>ls.
     bind_res (visit_generators (map (visit_comprehension m) generators) ls) (\<lambda>gens ls.
     bind_res (visit m elt ls) (\<lambda>elt' ls.
     return_res (GeneratorExp elt' gens) (del_last (length generators) ls))))"
| "visit m (ListComp elt generators) = (\<lambda>ls.
     bind_res (visit_generators (map (visit_comprehension m) generators) ls) (\<lambda>gens ls.
     bind_res (visit m elt ls) (\<lambda>elt' ls.
     return_res (ListComp elt' gens) (del_last (length generators) ls))))"
| "visit m (Call func args keywords starargs kwargs) = (\<lambda>ls.
     bind_res (visit m func ls) (\<lambda>func' ls.
     bind_res (visit_each (map (visit m) args) ls) (\<lambda>args' ls.
     bind_res (visit_each (map (visit_keyword m) keywords) ls) (\<lambda>keywords' ls.
     bind_res (visit_maybe (map_option (visit m) starargs) ls) (\<lambda>starargs' ls.
     bind_res (visit_maybe (map_option (visit m) kwargs) ls) (\<lambda>kwargs' ls.
     return_res (Call func' args' keywords' starargs' kwargs') ls))))))"
| "visit m (Attribute v attr c) = (\<lambda>ls.
     case m of
       Eval \<Rightarrow>
         bind_res (visit m v ls) (\<lambda>v' ls.
         return_res (lookup_attr_call v' attr) ls)
     | Exec \<Rightarrow>
         bind_res (visit m v ls) (\<lambda>v' ls.
         return_res (Attribute v' attr c) ls))"
| "visit m (Subscript v sl c) = (\<lambda>ls.
     case (m, sl) of
       (Eval, Index i) \<Rightarrow>
         bind_res (visit_slice m sl ls) (\<lambda>sl' ls.
         bind_res (visit m v ls) (\<lambda>v' ls.
         return_res (lookup_item_call v' (case sl' of Index i' \<Rightarrow> [i'] | _ \<Rightarrow> [])) ls))
     | _ \<Rightarrow>
         bind_res (visit m v ls) (\<lambda>v' ls.
         bind_res (visit_slice m sl ls) (\<lambda>sl' ls.
         return_res (Subscript v' sl' c) ls)))"
| "visit m (ListE elts c) = (\<lambda>ls.
     bind_res (visit_each (map (visit m) elts) ls) (\<lambda>elts' ls.
     return_res (ListE elts' c) ls))"
| "visit m (TupleE elts c) = (\<lambda>ls.
     bind_res (visit_each (map (visit m) elts) ls) (\<lambda>elts' ls.
     return_res (TupleE elts' c) ls))"
| "visit_slice m (Index i) = (\<lambda>ls.
     bind_res (visit m i ls) (\<lambda>i' ls.
     return_res (Index i') ls))"
| "visit_slice m (Slice lower upper step) = (\<lambda>ls.
     bind_res (visit_maybe (map_option (visit m) lower) ls) (\<lambda>lower' ls.
     bind_res (visit_maybe (map_option (visit m) upper) ls) (\<lambda>upper' ls.
     bind_res (visit_maybe (map_option (visit m) step) ls) (\<lambda>step' ls.
     return_res (Slice lower' upper' step') ls))))"
| "visit_comprehension m (Comprehension target iter ifs) = (\<lambda>ls.
     bind_res (visit m target (ls @ [{}])) (\<lambda>target' ls.
     bind_res (visit m iter ls) (\<lambda>iter' ls.
     bind_res (visit_each (map (visit m) ifs) ls) (\<lambda>ifs' ls.
     return_res (Comprehension target' iter' ifs') ls))))"
| "visit_arguments m (Arguments args vararg kwarg defaults) = (\<lambda>ls.
     bind_res (visit_each (map (visit m) args) ls) (\<lambda>args' ls.
     bind_res (visit_each (map (visit m) defaults) ls) (\<lambda>defaults' ls.
     return_res (Arguments args' vararg kwarg defaults') ls)))"
| "visit_keyword m (Keyword arg v) = (\<lambda>ls.
     bind_res (visit m v ls) (\<lambda>v' ls.
     return_res (Keyword arg v') ls))"

text \<open>
  Statements. \<^verbatim>\<open>visitFunctionDef\<close> and \<^verbatim>\<open>visitClassDef\<close> register the defined name in
  the innermost scope before they push the new one; \<^verbatim>\<open>_extract_names\<close> is called before
  the \<^verbatim>\<open>try\<close>, so its exception leaves the stack as it is.
\<close>

primrec visit_stmt :: "mode \<Rightarrow> stmt \<Rightarrow> scopes \<Rightarrow> stmt res" where
  "visit_stmt m (FunctionDef name args body decorator_list) = (\<lambda>ls.
     bind_res (push_names args (add_local name ls)) (\<lambda>u ls.
     finally_pop
       (bind_res (visit_arguments m args ls) (\<lambda>args' ls.
        bind_res (visit_each (map (visit_stmt m) body) ls) (\<lambda>body' ls.
        bind_res (visit_each (map (visit m) decorator_list) ls) (\<lambda>decorator_list' ls.
        return_res (FunctionDef name args' body' decorator_list') ls))))))"
| "visit_stmt m (ClassDef name bases body decorator_list) = (\<lambda>ls.
     finally_pop
       (bind_res (visit_each (map (visit m) bases) (add_local name ls @ [{}])) (\<lambda>bases' ls.
        bind_res (visit_each (map (visit_stmt m) body) ls) (\<lambda>body' ls.
        bind_res (visit_each (map (visit m) decorator_list) ls) (\<lambda>decorator_list' ls.
        return_res (ClassDef name bases' body' decorator_list') ls)))))"
| "visit_stmt m (Return v) = (\<lambda>ls.
     bind_res (visit_maybe (map_option (visit m) v) ls) (\<lambda>v' ls.
     return_res (Return v') ls))"
| "visit_stmt m (Assign targets v) = (\<lambda>ls.
     bind_res (visit_each (map (visit m) targets) ls) (\<lambda>targets' ls.
     bind_res (visit m v ls) (\<lambda>v' ls.
     return_res (Assign targets' v') ls)))"
| "visit_stmt m (For target iter body orelse) = (\<lambda>ls.
     finally_pop
       (bind_res (visit m target (ls @ [{}])) (\<lambda>target' ls.
        bind_res (visit m iter ls) (\<lambda>iter' ls.
        bind_res (visit_each (map (visit_stmt m) body) ls) (\<lambda>body' ls.
        bind_res (visit_each (map (visit_stmt m) orelse) ls) (\<lambda>orelse' ls.
        return_res (For target' iter' body' orelse') ls))))))"
| "visit_stmt m (If test body orelse) = (\<lambda>ls.
     bind_res (visit m test ls) (\<lambda>test' ls.
     bind_res (visit_each (map (visit_stmt m) body) ls) (\<lambda>body' ls.
     bind_res (visit_each (map (visit_stmt m) orelse) ls) (\<lambda>orelse' ls.
     return_res (If test' body' orelse') ls))))"
| "visit_stmt m (Expr v) = (\<lambda>ls.
     bind_res (visit m v ls) (\<lambda>v' ls.
     return_res (Expr v') ls))"
| "visit_stmt m Pass = return_res Pass"

primrec visit_mod :: "mode \<Rightarrow> py_mod \<Rightarrow> scopes \<Rightarrow> py_mod res" where
  "visit_mod m (Module body) = (\<lambda>ls.
     bind_res (visit_each (map (visit_stmt m) body) ls) (\<lambda>body' ls.
     return_res (Module body') ls))"
| "visit_mod m (Expression body) = (\<lambda>ls.
     bind_res (visit m body ls) (\<lambda>body' ls.
     return_res (Expression body') ls))"

text \<open>
  \<^verbatim>\<open>tree = xform().visit(node)\<close> in \<^verbatim>\<open>_compile\<close>: a fresh transformer starts with
  \<^verbatim>\<open>self.locals = [CONSTANTS]\<close>.
\<close>

definition transform :: "mode \<Rightarrow> py_mod \<Rightarrow> exn + py_mod" where
  "transform m node = fst (visit_mod m node [CONSTANTS])"

section \<open>Code objects: Expression and Suite\<close>

text \<open>
  \<^verbatim>\<open>_compile\<close> rewrites the tree and hands it to the host's code generator. The code
  object is kept as the rewritten tree with the two fields \<^verbatim>\<open>_compile\<close> sets for
  diagnostics; the transformer argument \<^verbatim>\<open>xform\<close> is taken at its default \<^verbatim>\<open>None\<close>.
\<close>

record code_object =
  co_tree :: py_mod
  co_filename :: string
  co_firstlineno :: int

definition compile :: "mode \<Rightarrow> py_mod \<Rightarrow> string option \<Rightarrow> int \<Rightarrow> exn + code_object" where
  "compile m node filename lineno =
     (case transform m node of
        Inl e \<Rightarrow> Inl e
      | Inr tree \<Rightarrow>
          Inr \<lparr>co_tree = tree,
               co_filename = (case filename of
                                None \<Rightarrow> ''<string>''
                              | Some f \<Rightarrow> if f = [] then ''<string>'' else f),
               co_firstlineno = (if lineno \<le> 0 then 1 else lineno)\<rparr>)"

text \<open>
  The classes \<^verbatim>\<open>Expression\<close> (\<^verbatim>\<open>mode = 'eval'\<close>) and \<^verbatim>\<open>Suite\<close>
  (\<^verbatim>\<open>mode = 'exec'\<close>), and the slots of an instance. The slot \<^verbatim>\<open>_globals\<close> holds the
  bound method \<^verbatim>\<open>lookup.globals\<close>; the record keeps the class it is bound to.
\<close>

datatype code_class = ExpressionClass | SuiteClass

fun class_mode :: "code_class \<Rightarrow> mode" where
  "class_mode ExpressionClass = Eval"
| "class_mode SuiteClass = Exec"

record Code =
  c_class :: code_class
  c_source :: string
  c_code :: code_object
  c_ast :: py_mod
  c_lookup :: lookup_class

text \<open>
  The argument \<^verbatim>\<open>lookup\<close> of \<^verbatim>\<open>Code.__init__\<close>: \<^verbatim>\<open>None\<close>, a string, or a lookup
  class. The parameter's default is the string \<^verbatim>\<open>'strict'\<close>.
\<close>

datatype lookup_arg = PyNone | PyText string | PyClass lookup_class

definition select_lookup :: "lookup_arg \<Rightarrow> exn + lookup_class" where
  "select_lookup lookup =
     (case lookup of
        PyNone \<Rightarrow> Inr LenientLookup
      | PyText s \<Rightarrow>
          if s = ''lenient'' then Inr LenientLookup
          else if s = ''strict'' then Inr StrictLookup
          else Inl KeyError
      | PyClass c \<Rightarrow> Inr c)"

text \<open>
  \<^verbatim>\<open>Code.__init__\<close>. The source is text, parsed by \<^verbatim>\<open>_parse\<close> (the host's parser,
  a parameter here), or a node already wrapped by \<^verbatim>\<open>wrap_tree\<close>. An omitted
  \<^verbatim>\<open>lookup\<close> argument is \<open>None\<close> of the option type.
\<close>

definition source_node ::
  "(mode \<Rightarrow> string \<Rightarrow> exn + py_mod) \<Rightarrow> mode \<Rightarrow> string + py_mod \<Rightarrow> exn + py_mod" where
  "source_node parse m src = (case src of Inl text \<Rightarrow> parse m text | Inr n \<Rightarrow> Inr n)"

definition Code_init ::
  "(mode \<Rightarrow> string \<Rightarrow> exn + py_mod) \<Rightarrow> code_class \<Rightarrow> string + py_mod \<Rightarrow> string option \<Rightarrow> int \<Rightarrow>
   lookup_arg option \<Rightarrow> exn + Code" where
  "Code_init parse cl src filename lineno lookup_given =
     (let lookup = (case lookup_given of None \<Rightarrow> PyText ''strict'' | Some l \<Rightarrow> l);
          source = (case src of Inl text \<Rightarrow> text | Inr n \<Rightarrow> ''?'')
      in case source_node parse (class_mode cl) src of
           Inl e \<Rightarrow> Inl e
         | Inr node \<Rightarrow>
             (case compile (class_mode cl) node filename lineno of
                Inl e \<Rightarrow> Inl e
              | Inr co \<Rightarrow>
                  (case select_lookup lookup of
                     Inl e \<Rightarrow> Inl e
                   | Inr lk \<Rightarrow>
                       Inr \<lparr>c_class = cl, c_source = source, c_code = co, c_ast = node,
                            c_lookup = lk\<rparr>)))"

definition wrap_tree_eval :: "expr \<Rightarrow> py_mod" where
  "wrap_tree_eval source = Expression source"

definition wrap_tree_exec :: "stmt \<Rightarrow> py_mod" where
  "wrap_tree_exec source = Module [source]"

text \<open>
  \<^verbatim>\<open>__eq__\<close>, \<^verbatim>\<open>__ne__\<close> and \<^verbatim>\<open>__hash__\<close>. The other operand is any object; the
  comparison and the hash of code objects are the host's.
\<close>

datatype py_object = CodeInstance Code | OtherInstance val

definition Code_eq :: "(code_object \<Rightarrow> code_object \<Rightarrow> bool) \<Rightarrow> Code \<Rightarrow> py_object \<Rightarrow> bool" where
  "Code_eq code_eq self other =
     (case other of
        CodeInstance c \<Rightarrow> c_class c = c_class self \<and> code_eq (c_code self) (c_code c)
      | OtherInstance v \<Rightarrow> False)"

definition Code_hash :: "(code_object \<Rightarrow> int) \<Rightarrow> Code \<Rightarrow> int" where
  "Code_hash code_hash self = code_hash (c_code self)"

definition Code_ne :: "(code_object \<Rightarrow> code_object \<Rightarrow> bool) \<Rightarrow> Code \<Rightarrow> py_object \<Rightarrow> bool" where
  "Code_ne code_eq self other = (\<not> Code_eq code_eq self other)"

section \<open>Evaluation\<close>

text \<open>
  \<^verbatim>\<open>LookupBase.globals(cls, data)\<close> builds the dictionary of global names the compiled
  code runs in: the data and the class methods bound to \<open>cls\<close>. The objects of that
  dictionary, next to ordinary values:
\<close>

datatype rt =
    Val val
  | DataDict
  | LookupNameFn
  | LookupAttrFn
  | LookupItemFn
  | StarImportPatchFn
  | UndefinedErrorClass

definition LookupBase_globals :: "string \<rightharpoonup> rt" where
  "LookupBase_globals =
     [''__data__'' \<mapsto> DataDict,
      ''_lookup_name'' \<mapsto> LookupNameFn,
      ''_lookup_attr'' \<mapsto> LookupAttrFn,
      ''_lookup_item'' \<mapsto> LookupItemFn,
      ''_star_import_patch'' \<mapsto> StarImportPatchFn,
      ''UndefinedError'' \<mapsto> UndefinedErrorClass]"

text \<open>The local names of \<^verbatim>\<open>Expression.evaluate\<close>: \<^verbatim>\<open>{'__data__': data}\<close>.\<close>

definition evaluate_locals :: "string \<rightharpoonup> rt" where
  "evaluate_locals = [''__data__'' \<mapsto> DataDict]"

text \<open>
  The host's \<^verbatim>\<open>eval\<close>, on the nodes the rewriter produces for a name, an attribute or
  an item: names in load position, string and number literals, tuples, and calls with
  positional arguments of the three lookup functions or of an \<^verbatim>\<open>Undefined\<close> instance.
  The result is \<open>None\<close> for anything else, which this model does not run.
\<close>

fun eval_each :: "(exn + rt) option list \<Rightarrow> (exn + rt list) option" where
  "eval_each [] = Some (Inr [])"
| "eval_each (r # rs) =
     (case r of
        None \<Rightarrow> None
      | Some (Inl e) \<Rightarrow> Some (Inl e)
      | Some (Inr v) \<Rightarrow>
          (case eval_each rs of
             None \<Rightarrow> None
           | Some (Inl e) \<Rightarrow> Some (Inl e)
           | Some (Inr vs) \<Rightarrow> Some (Inr (v # vs))))"

fun the_vals :: "rt list \<Rightarrow> val list option" where
  "the_vals [] = Some []"
| "the_vals (Val v # rs) = (case the_vals rs of None \<Rightarrow> None | Some vs \<Rightarrow> Some (v # vs))"
| "the_vals (r # rs) = None"

definition as_rt :: "exn + val \<Rightarrow> (exn + rt) option" where
  "as_rt r = Some (case r of Inl e \<Rightarrow> Inl e | Inr v \<Rightarrow> Inr (Val v))"

definition py_apply :: "lookup_class \<Rightarrow> host \<Rightarrow> py_context \<Rightarrow> rt \<Rightarrow> rt list \<Rightarrow> (exn + rt) option" where
  "py_apply cls h data f args =
     (case f of
        LookupNameFn \<Rightarrow>
          (case args of
             [DataDict, Val (Str name)] \<Rightarrow> as_rt (lookup_name cls h data name)
           | _ \<Rightarrow> None)
      | LookupAttrFn \<Rightarrow>
          (case args of
             [Val obj, Val (Str key)] \<Rightarrow> as_rt (lookup_attr cls h obj key)
           | _ \<Rightarrow> None)
      | LookupItemFn \<Rightarrow>
          (case args of
             [Val obj, Val (Tuple keys)] \<Rightarrow> as_rt (lookup_item cls h obj keys)
           | _ \<Rightarrow> None)
      | Val (UndefinedV name owner) \<Rightarrow>
          (case the_vals args of
             None \<Rightarrow> None
           | Some vs \<Rightarrow> as_rt (Undefined_call h (name, owner) vs))
      | _ \<Rightarrow> None)"

primrec py_eval :: "lookup_class \<Rightarrow> host \<Rightarrow> py_context \<Rightarrow> expr \<Rightarrow> (exn + rt) option" where
  "py_eval cls h data (Name ident c) =
     (if c = Load then
        (case evaluate_locals ident of
           Some r \<Rightarrow> Some (Inr r)
         | None \<Rightarrow>
             (case LookupBase_globals ident of
                Some r \<Rightarrow> Some (Inr r)
              | None \<Rightarrow>
                  (case py_builtins h ident of
                     Some v \<Rightarrow> Some (Inr (Val v))
                   | None \<Rightarrow> Some (Inl (OtherError ''NameError'')))))
      else None)"
| "py_eval cls h data (StrE s) = Some (Inr (Val (Str s)))"
| "py_eval cls h data (NumE n) = Some (Inr (Val (Num n)))"
| "py_eval cls h data (TupleE elts c) =
     (if c = Load then
        (case eval_each (map (py_eval cls h data) elts) of
           None \<Rightarrow> None
         | Some (Inl e) \<Rightarrow> Some (Inl e)
         | Some (Inr rs) \<Rightarrow>
             (case the_vals rs of None \<Rightarrow> None | Some vs \<Rightarrow> Some (Inr (Val (Tuple vs)))))
      else None)"
| "py_eval cls h data (Call func args keywords starargs kwargs) =
     (if keywords = [] \<and> starargs = None \<and> kwargs = None then
        (case py_eval cls h data func of
           None \<Rightarrow> None
         | Some (Inl e) \<Rightarrow> Some (Inl e)
         | Some (Inr f) \<Rightarrow>
             (case eval_each (map (py_eval cls h data) args) of
                None \<Rightarrow> None
              | Some (Inl e) \<Rightarrow> Some (Inl e)
              | Some (Inr rs) \<Rightarrow> py_apply cls h data f rs))
      else None)"
| "py_eval cls h data (BinOp a oper b) = None"
| "py_eval cls h data (Lambda args body) = None"
| "py_eval cls h data (IfExp t a b) = None"
| "py_eval cls h data (ListComp elt generators) = None"
| "py_eval cls h data (GeneratorExp elt generators) = None"
| "py_eval cls h data (Attribute v attr c) = None"
| "py_eval cls h data (Subscript v sl c) = None"
| "py_eval cls h data (ListE elts c) = None"

text \<open>
  \<^verbatim>\<open>Expression.evaluate(self, data)\<close>:
  \<^verbatim>\<open>eval(self.code, self._globals(data), {'__data__': data})\<close>.
\<close>

definition evaluate :: "host \<Rightarrow> Code \<Rightarrow> py_context \<Rightarrow> (exn + rt) option" where
  "evaluate h self data =
     (case co_tree (c_code self) of
        Expression body \<Rightarrow> py_eval (c_lookup self) h data body
      | Module body \<Rightarrow> None)"

text \<open>
  \<^verbatim>\<open>Expression(source, lookup=lookup).evaluate(data)\<close> with the file name and line
  number at their defaults: an exception of the constructor is the outcome.
\<close>

definition Expression_evaluate ::
  "(mode \<Rightarrow> string \<Rightarrow> exn + py_mod) \<Rightarrow> host \<Rightarrow> string + expr \<Rightarrow> lookup_arg option \<Rightarrow> py_context \<Rightarrow>
   (exn + rt) option" where
  "Expression_evaluate parse h src lookup data =
     (case Code_init parse ExpressionClass (map_sum id wrap_tree_eval src) None (- 1) lookup of
        Inl e \<Rightarrow> Some (Inl e)
      | Inr self \<Rightarrow> evaluate h self data)"

section \<open>A sample host\<close>

text \<open>
  An interpreter state with a few objects, for running the definitions: \<open>Ref 0\<close> is the
  built-in function \<^verbatim>\<open>len\<close>; \<open>Ref 1\<close> is the dictionary \<^verbatim>\<open>{'some': 'thing'}\<close>, whose
  class defines \<^verbatim>\<open>keys\<close> (the bound method is \<open>Ref 5\<close>); \<open>Ref 2\<close> is the empty
  dictionary; \<open>Ref 3\<close> is an instance whose class defines a property \<^verbatim>\<open>boom\<close> that
  raises \<^verbatim>\<open>AttributeError\<close> and which has no item access; \<open>Ref 4\<close> is an instance
  without attributes whose \<^verbatim>\<open>__getitem__\<close> raises \<^verbatim>\<open>IndexError\<close> for every key;
  \<open>Ref 6\<close> is an instance whose class defines a property \<^verbatim>\<open>bad\<close> that raises
  \<^verbatim>\<open>ZeroDivisionError\<close> and which has no item access; \<open>Ref 7\<close> is an instance
  without attributes whose \<^verbatim>\<open>__getitem__\<close> raises \<^verbatim>\<open>ValueError\<close> for every key.
\<close>

definition sample_getattr :: "val \<Rightarrow> string \<Rightarrow> exn + val" where
  "sample_getattr obj key =
     (if obj = Ref 1 \<and> key = ''keys'' then Inr (Ref 5)
      else if obj = Ref 6 \<and> key = ''bad'' then Inl (OtherError ''ZeroDivisionError'')
      else Inl AttributeError)"

definition sample_hasattr_class :: "val \<Rightarrow> string \<Rightarrow> bool" where
  "sample_hasattr_class obj key =
     ((obj = Ref 1 \<and> key = ''keys'') \<or> (obj = Ref 3 \<and> key = ''boom'') \<or>
      (obj = Ref 6 \<and> key = ''bad''))"

definition sample_getitem :: "val \<Rightarrow> val \<Rightarrow> exn + val" where
  "sample_getitem obj key =
     (if obj = Ref 1 then (if key = Str ''some'' then Inr (Str ''thing'') else Inl KeyError)
      else if obj = Ref 2 then Inl KeyError
      else if obj = Ref 4 then Inl IndexError
      else if obj = Ref 7 then Inl (OtherError ''ValueError'')
      else Inl TypeError)"

definition sample_repr :: "val \<Rightarrow> string" where
  "sample_repr obj = (if obj = Ref 2 then ''{}'' else ''<object>'')"

definition sample_host :: host where
  "sample_host =
     \<lparr>py_getattr = sample_getattr,
      py_hasattr_class = sample_hasattr_class,
      py_getitem = sample_getitem,
      py_repr = sample_repr,
      py_builtins = [''len'' \<mapsto> Ref 0]\<rparr>"

definition sample_parse :: "mode \<Rightarrow> string \<Rightarrow> exn + py_mod" where
  "sample_parse m text =
     (if m = Eval \<and> text = ''nothing'' then Inr (Expression (Name ''nothing'' Load))
      else Inl (OtherError ''SyntaxError''))"

text \<open>
  A code object as \<^verbatim>\<open>_compile\<close> builds it for the expression \<^verbatim>\<open>x\<close>, the same code
  under another file name, and a host comparison and hash of code objects that, like
  Python's, leave the file name out.
\<close>

definition sample_code :: code_object where
  "sample_code =
     \<lparr>co_tree = Expression (lookup_name_call ''x''), co_filename = ''<string>'',
      co_firstlineno = 1\<rparr>"

definition sample_code_eq :: "code_object \<Rightarrow> code_object \<Rightarrow> bool" where
  "sample_code_eq a b = (co_tree a = co_tree b \<and> co_firstlineno a = co_firstlineno b)"

definition sample_code_hash :: "code_object \<Rightarrow> int" where
  "sample_code_hash a = co_firstlineno a"

definition sample_expression :: "string \<Rightarrow> Code" where
  "sample_expression filename =
     \<lparr>c_class = ExpressionClass, c_source = ''x'', c_code = sample_code\<lparr>co_filename := filename\<rparr>,
      c_ast = Expression (Name ''x'' Load), c_lookup = StrictLookup\<rparr>"

definition sample_suite :: Code where
  "sample_suite =
     \<lparr>c_class = SuiteClass, c_source = ''x'', c_code = sample_code,
      c_ast = Expression (Name ''x'' Load), c_lookup = StrictLookup\<rparr>"




lemmas sample_defs =
  sample_host_def sample_getattr_def sample_hasattr_class_def sample_getitem_def
  sample_repr_def sample_parse_def

section \<open>Name resolution\<close>

text \<open>
  C5. \<^verbatim>\<open>lookup_name\<close> returns the context's value when the context has the name, also
  when a built-in of the same name exists; otherwise the value of the built-in namespace,
  which is the host's built-ins with \<^verbatim>\<open>Markup\<close> and \<^verbatim>\<open>Undefined\<close> added; otherwise the
  outcome of the policy's \<^verbatim>\<open>undefined(name)\<close>, called without an owner.
\<close>

theorem lookup_name_resolution:
  "(data name = Some v \<longrightarrow> lookup_name cls h data name = Inr v) \<and>
   (data name = None \<and> BUILTINS h name = Some b \<longrightarrow> lookup_name cls h data name = Inr b) \<and>
   (data name = None \<and> BUILTINS h name = None \<longrightarrow>
      lookup_name cls h data name = lookup_undefined cls h name None) \<and>
   BUILTINS h ''Markup'' = Some MarkupClass \<and>
   BUILTINS h ''Undefined'' = Some UndefinedClass \<and>
   (name \<noteq> ''Markup'' \<and> name \<noteq> ''Undefined'' \<longrightarrow> BUILTINS h name = py_builtins h name)"
  by (simp add: lookup_name_def BUILTINS_def)

theorem lookup_name_resolution_witness:
  "lookup_name StrictLookup sample_host [''len'' \<mapsto> Num 7] ''len'' = Inr (Num 7) \<and>
   lookup_name StrictLookup sample_host Map.empty ''len'' = Inr (Ref 0) \<and>
   lookup_name LenientLookup sample_host Map.empty ''nothing'' = Inr (UndefinedV ''nothing'' None) \<and>
   BUILTINS sample_host ''len'' = py_builtins sample_host ''len''"
  using lookup_name_resolution [where data = "[''len'' \<mapsto> Num 7]" and name = "''len''" and v = "Num 7"
      and cls = StrictLookup and h = sample_host]
    lookup_name_resolution [where data = Map.empty and name = "''len''" and b = "Ref 0"
      and cls = StrictLookup and h = sample_host]
    lookup_name_resolution [where data = Map.empty and name = "''nothing''"
      and cls = LenientLookup and h = sample_host]
  by (simp add: BUILTINS_def sample_defs)

section \<open>Attribute and item resolution\<close>

text \<open>
  C3, as the code has it. \<^verbatim>\<open>lookup_attr\<close> returns the attribute when \<^verbatim>\<open>getattr\<close>
  succeeds. When \<^verbatim>\<open>getattr\<close> raises \<^verbatim>\<open>AttributeError\<close> and the object's class does not
  have the name, it returns the item \<^verbatim>\<open>obj[key]\<close>; when the item access raises
  \<^verbatim>\<open>KeyError\<close> or \<^verbatim>\<open>TypeError\<close>, the outcome is the policy's
  \<^verbatim>\<open>undefined(key, owner=obj)\<close>; any other exception of the item access propagates. An
  \<^verbatim>\<open>AttributeError\<close> for a name the class has, and every other exception of
  \<^verbatim>\<open>getattr\<close>, propagates unchanged.
\<close>

theorem lookup_attr_cases:
  "(py_getattr h obj key = Inr v \<longrightarrow> lookup_attr cls h obj key = Inr v) \<and>
   (py_getattr h obj key = Inl AttributeError \<and> \<not> py_hasattr_class h obj key \<and>
    py_getitem h obj (Str key) = Inr v \<longrightarrow> lookup_attr cls h obj key = Inr v) \<and>
   (py_getattr h obj key = Inl AttributeError \<and> \<not> py_hasattr_class h obj key \<and>
    py_getitem h obj (Str key) = Inl e \<and> (e = KeyError \<or> e = TypeError) \<longrightarrow>
      lookup_attr cls h obj key = lookup_undefined cls h key (Some obj)) \<and>
   (py_getattr h obj key = Inl AttributeError \<and> \<not> py_hasattr_class h obj key \<and>
    py_getitem h obj (Str key) = Inl e \<and> e \<noteq> KeyError \<and> e \<noteq> TypeError \<longrightarrow>
      lookup_attr cls h obj key = Inl e) \<and>
   (py_getattr h obj key = Inl e \<and> (py_hasattr_class h obj key \<or> e \<noteq> AttributeError) \<longrightarrow>
      lookup_attr cls h obj key = Inl e)"
  by (auto simp: lookup_attr_def)

theorem lookup_attr_cases_witness:
  "lookup_attr LenientLookup sample_host (Ref 1) ''keys'' = Inr (Ref 5) \<and>
   lookup_attr LenientLookup sample_host (Ref 1) ''some'' = Inr (Str ''thing'') \<and>
   lookup_attr LenientLookup sample_host (Ref 2) ''nil'' = Inr (UndefinedV ''nil'' (Some (Ref 2))) \<and>
   lookup_attr StrictLookup sample_host (Ref 2) ''nil'' =
     Inl (UndefinedError (''{} has no member named '' @ dq @ ''nil'' @ dq)) \<and>
   lookup_attr LenientLookup sample_host (Ref 4) ''nil'' = Inl IndexError \<and>
   lookup_attr LenientLookup sample_host (Ref 3) ''boom'' = Inl AttributeError \<and>
   lookup_attr LenientLookup sample_host (Ref 6) ''bad'' = Inl (OtherError ''ZeroDivisionError'')"
  using lookup_attr_cases [where h = sample_host and obj = "Ref 1" and key = "''keys''"
      and v = "Ref 5" and cls = LenientLookup]
    lookup_attr_cases [where h = sample_host and obj = "Ref 1" and key = "''some''"
      and v = "Str ''thing''" and cls = LenientLookup]
    lookup_attr_cases [where h = sample_host and obj = "Ref 2" and key = "''nil''"
      and e = KeyError and cls = LenientLookup]
    lookup_attr_cases [where h = sample_host and obj = "Ref 2" and key = "''nil''"
      and e = KeyError and cls = StrictLookup]
    lookup_attr_cases [where h = sample_host and obj = "Ref 4" and key = "''nil''"
      and e = IndexError and cls = LenientLookup]
    lookup_attr_cases [where h = sample_host and obj = "Ref 3" and key = "''boom''"
      and e = AttributeError and cls = LenientLookup]
    lookup_attr_cases [where h = sample_host and obj = "Ref 6" and key = "''bad''"
      and e = "OtherError ''ZeroDivisionError''" and cls = LenientLookup]
  by (simp add: sample_defs UndefinedError_init_def UndefinedError_message_def)

text \<open>
  The object \<open>Ref 4\<close> has no attribute \<^verbatim>\<open>nil\<close>, on the instance or on its class, and
  its item access fails with \<^verbatim>\<open>IndexError\<close>: \<^verbatim>\<open>lookup_attr\<close> raises that
  \<^verbatim>\<open>IndexError\<close> and the policy's \<^verbatim>\<open>undefined\<close> is not the outcome.
\<close>

theorem lookup_attr_item_error_counterexample:
  "py_getattr sample_host (Ref 4) ''nil'' = Inl AttributeError \<and>
   \<not> py_hasattr_class sample_host (Ref 4) ''nil'' \<and>
   py_getitem sample_host (Ref 4) (Str ''nil'') = Inl IndexError \<and>
   lookup_attr LenientLookup sample_host (Ref 4) ''nil'' = Inl IndexError \<and>
   lookup_attr LenientLookup sample_host (Ref 4) ''nil'' \<noteq>
     lookup_undefined LenientLookup sample_host ''nil'' (Some (Ref 4))"
  by (simp add: lookup_attr_def sample_defs)

text \<open>
  C4. \<^verbatim>\<open>lookup_item\<close> takes a one-element key tuple for its element and any other tuple
  as it is, and returns \<^verbatim>\<open>obj[key]\<close> when that succeeds. When the item access fails
  (\<^verbatim>\<open>AttributeError\<close>, \<^verbatim>\<open>KeyError\<close>, \<^verbatim>\<open>IndexError\<close> or \<^verbatim>\<open>TypeError\<close>) and the key is
  text, the attribute of that name is the result, and the policy's
  \<^verbatim>\<open>undefined(key, owner=obj)\<close> is the outcome when the attribute is absent too; an
  exception of the attribute's own evaluation propagates. When the key is not text, the
  failure of the item access propagates, as does any other exception of the item access
  whatever the key.
\<close>

theorem lookup_item_cases:
  "(keys = [k] \<longrightarrow> unwrap_key keys = k) \<and>
   (length keys \<noteq> 1 \<longrightarrow> unwrap_key keys = Tuple keys) \<and>
   (py_getitem h obj (unwrap_key keys) = Inr v \<longrightarrow> lookup_item cls h obj keys = Inr v) \<and>
   (py_getitem h obj (unwrap_key keys) = Inl e \<and>
    (e = AttributeError \<or> e = KeyError \<or> e = IndexError \<or> e = TypeError) \<and>
    unwrap_key keys = Str s \<and> py_getattr h obj s = Inr v \<longrightarrow>
      lookup_item cls h obj keys = Inr v) \<and>
   (py_getitem h obj (unwrap_key keys) = Inl e \<and>
    (e = AttributeError \<or> e = KeyError \<or> e = IndexError \<or> e = TypeError) \<and>
    unwrap_key keys = Str s \<and> py_getattr h obj s = Inl AttributeError \<longrightarrow>
      lookup_item cls h obj keys = lookup_undefined cls h s (Some obj)) \<and>
   (py_getitem h obj (unwrap_key keys) = Inl e \<and>
    (e = AttributeError \<or> e = KeyError \<or> e = IndexError \<or> e = TypeError) \<and>
    unwrap_key keys = Str s \<and> py_getattr h obj s = Inl e' \<and> e' \<noteq> AttributeError \<longrightarrow>
      lookup_item cls h obj keys = Inl e') \<and>
   (py_getitem h obj (unwrap_key keys) = Inl e \<and> (\<forall>t. unwrap_key keys \<noteq> Str t) \<longrightarrow>
      lookup_item cls h obj keys = Inl e) \<and>
   (py_getitem h obj (unwrap_key keys) = Inl e \<and>
    e \<noteq> AttributeError \<and> e \<noteq> KeyError \<and> e \<noteq> IndexError \<and> e \<noteq> TypeError \<longrightarrow>
      lookup_item cls h obj keys = Inl e)"
  by (auto simp: lookup_item_def unwrap_key_def getattr_default_def Let_def
      split: list.splits val.splits)

theorem lookup_item_cases_witness:
  "unwrap_key [Str ''some''] = Str ''some'' \<and>
   unwrap_key [Num 0, Num 1] = Tuple [Num 0, Num 1] \<and>
   lookup_item LenientLookup sample_host (Ref 1) [Str ''some''] = Inr (Str ''thing'') \<and>
   lookup_item LenientLookup sample_host (Ref 1) [Str ''keys''] = Inr (Ref 5) \<and>
   lookup_item LenientLookup sample_host (Ref 2) [Str ''nil''] =
     Inr (UndefinedV ''nil'' (Some (Ref 2))) \<and>
   lookup_item LenientLookup sample_host (Ref 2) [Num 0] = Inl KeyError \<and>
   lookup_item LenientLookup sample_host (Ref 2) [Num 0, Num 1] = Inl KeyError \<and>
   lookup_item LenientLookup sample_host (Ref 6) [Str ''bad''] =
     Inl (OtherError ''ZeroDivisionError'') \<and>
   lookup_item LenientLookup sample_host (Ref 7) [Str ''nil''] = Inl (OtherError ''ValueError'')"
  using lookup_item_cases [where keys = "[Str ''some'']" and k = "Str ''some''" and h = sample_host
      and obj = "Ref 1" and v = "Str ''thing''" and cls = LenientLookup]
    lookup_item_cases [where keys = "[Str ''keys'']" and h = sample_host and obj = "Ref 1"
      and e = KeyError and s = "''keys''" and v = "Ref 5" and cls = LenientLookup]
    lookup_item_cases [where keys = "[Str ''nil'']" and h = sample_host and obj = "Ref 2"
      and e = KeyError and s = "''nil''" and cls = LenientLookup]
    lookup_item_cases [where keys = "[Num 0]" and h = sample_host and obj = "Ref 2"
      and e = KeyError and cls = LenientLookup]
    lookup_item_cases [where keys = "[Num 0, Num 1]" and h = sample_host and obj = "Ref 2"
      and e = KeyError and cls = LenientLookup]
    lookup_item_cases [where keys = "[Str ''bad'']" and h = sample_host and obj = "Ref 6"
      and e = TypeError and s = "''bad''" and e' = "OtherError ''ZeroDivisionError''"
      and cls = LenientLookup]
    lookup_item_cases [where keys = "[Str ''nil'']" and h = sample_host and obj = "Ref 7"
      and e = "OtherError ''ValueError''" and cls = LenientLookup]
  by (simp add: sample_defs unwrap_key_def)

section \<open>Evaluating a single name\<close>

lemma transform_name:
  "ident \<notin> CONSTANTS \<Longrightarrow>
   transform Eval (Expression (Name ident Load)) = Inr (Expression (lookup_name_call ident))"
  by (simp add: transform_def visitName_def flatten_def bind_res_def return_res_def)

lemma py_eval_lookup_name_call:
  "py_eval cls h data (lookup_name_call ident) = as_rt (lookup_name cls h data ident)"
  by (simp add: lookup_name_call_def evaluate_locals_def LookupBase_globals_def py_apply_def)

lemma Expression_evaluate_name:
  assumes "source_node parse Eval (map_sum id wrap_tree_eval src) = Inr (Expression (Name ident Load))"
    and "ident \<notin> CONSTANTS" and "select_lookup lookup = Inr cls"
  shows "Expression_evaluate parse h src (Some lookup) data = as_rt (lookup_name cls h data ident)"
  using assms
  by (simp add: Expression_evaluate_def Code_init_def compile_def transform_name
      evaluate_def py_eval_lookup_name_call)

text \<open>
  C1, as the code has it. An expression that consists of one identifier, where the
  identifier is in no entry of the scope stack, is absent from the context and is absent
  from the built-in namespace as well: under the lenient policy it evaluates to an
  \<^verbatim>\<open>Undefined\<close> of that name, whose text is \<^verbatim>\<open>undefined\<close> and whose truth value is
  false; under the strict policy the evaluation raises the \<^verbatim>\<open>UndefinedError\<close> naming
  the identifier.
\<close>

theorem undefined_name_evaluation:
  assumes "source_node parse Eval (map_sum id wrap_tree_eval src) = Inr (Expression (Name ident Load))"
    and "ident \<notin> flatten [CONSTANTS]"
    and "data ident = None"
    and "BUILTINS h ident = None"
  shows "Expression_evaluate parse h src (Some (PyText ''lenient'')) data =
           Some (Inr (Val (UndefinedV ident None))) \<and>
         Undefined_str (ident, None) = ''undefined'' \<and>
         Undefined_nonzero (ident, None) = False \<and>
         Expression_evaluate parse h src (Some (PyText ''strict'')) data =
           Some (Inl (UndefinedError (dq @ ident @ dq @ '' not defined'')))"
proof -
  from assms(2) have c: "ident \<notin> CONSTANTS" by (simp add: flatten_def)
  have l: "Expression_evaluate parse h src (Some (PyText ''lenient'')) data =
      as_rt (lookup_name LenientLookup h data ident)"
    by (rule Expression_evaluate_name [OF assms(1) c]) (simp add: select_lookup_def)
  have s: "Expression_evaluate parse h src (Some (PyText ''strict'')) data =
      as_rt (lookup_name StrictLookup h data ident)"
    by (rule Expression_evaluate_name [OF assms(1) c]) (simp add: select_lookup_def)
  show ?thesis
    using assms(3,4)
    by (simp add: l s lookup_name_def as_rt_def Undefined_str_def Undefined_nonzero_def
        UndefinedError_init_def UndefinedError_message_def)
qed

theorem undefined_name_evaluation_witness:
  "Expression_evaluate sample_parse sample_host (Inl ''nothing'') (Some (PyText ''lenient'')) Map.empty =
     Some (Inr (Val (UndefinedV ''nothing'' None))) \<and>
   Undefined_str (''nothing'', None) = ''undefined'' \<and>
   Undefined_nonzero (''nothing'', None) = False \<and>
   Expression_evaluate sample_parse sample_host (Inl ''nothing'') (Some (PyText ''strict'')) Map.empty =
     Some (Inl (UndefinedError (dq @ ''nothing'' @ dq @ '' not defined'')))"
proof -
  have a: "source_node sample_parse Eval (map_sum id wrap_tree_eval (Inl ''nothing'')) =
      Inr (Expression (Name ''nothing'' Load))"
    by (simp add: source_node_def sample_parse_def)
  have b: "''nothing'' \<notin> flatten [CONSTANTS]"
    by (simp add: flatten_def CONSTANTS_def)
  have c: "(Map.empty :: py_context) ''nothing'' = None" by simp
  have d: "BUILTINS sample_host ''nothing'' = None"
    by (simp add: BUILTINS_def sample_host_def)
  show ?thesis by (rule undefined_name_evaluation [OF a b c d])
qed

text \<open>
  The identifier \<^verbatim>\<open>len\<close> is in no scope and absent from the empty context, and the
  lenient evaluation returns the built-in function, not an \<^verbatim>\<open>Undefined\<close>; the strict
  evaluation returns it too and raises nothing.
\<close>

theorem builtin_name_counterexample:
  "''len'' \<notin> flatten [CONSTANTS] \<and>
   (Map.empty :: py_context) ''len'' = None \<and>
   Expression_evaluate sample_parse sample_host (Inr (Name ''len'' Load)) (Some (PyText ''lenient''))
     Map.empty = Some (Inr (Val (Ref 0))) \<and>
   Expression_evaluate sample_parse sample_host (Inr (Name ''len'' Load)) (Some (PyText ''strict''))
     Map.empty = Some (Inr (Val (Ref 0)))"
proof -
  have c: "''len'' \<notin> CONSTANTS" by (simp add: CONSTANTS_def)
  have a: "source_node sample_parse Eval (map_sum id wrap_tree_eval (Inr (Name ''len'' Load))) =
      Inr (Expression (Name ''len'' Load))"
    by (simp add: source_node_def wrap_tree_eval_def)
  have l: "Expression_evaluate sample_parse sample_host (Inr (Name ''len'' Load))
      (Some (PyText ''lenient'')) Map.empty = as_rt (lookup_name LenientLookup sample_host Map.empty ''len'')"
    by (rule Expression_evaluate_name [OF a c]) (simp add: select_lookup_def)
  have s: "Expression_evaluate sample_parse sample_host (Inr (Name ''len'' Load))
      (Some (PyText ''strict'')) Map.empty = as_rt (lookup_name StrictLookup sample_host Map.empty ''len'')"
    by (rule Expression_evaluate_name [OF a c]) (simp add: select_lookup_def)
  show ?thesis
    unfolding l s
    by (simp add: c flatten_def lookup_name_def BUILTINS_def sample_host_def as_rt_def)
qed

section \<open>The Undefined value\<close>





section \<open>Construction, equality and hash of code objects\<close>



text \<open>
  C10. Where the host's hash of code objects agrees on code objects that compare equal:
  an \<^verbatim>\<open>Expression\<close> or \<^verbatim>\<open>Suite\<close> equals another object exactly when that object is
  of the same class and their code objects compare equal; an \<^verbatim>\<open>Expression\<close> and a
  \<^verbatim>\<open>Suite\<close> are never equal; equal objects have the same hash, which is the hash of the
  code object; and \<^verbatim>\<open>__ne__\<close> is the negation of \<^verbatim>\<open>__eq__\<close>.
\<close>

theorem Code_eq_hash:
  assumes "\<forall>x y. code_eq x y \<longrightarrow> code_hash x = code_hash y"
  shows "(Code_eq code_eq self other \<longleftrightarrow>
           (\<exists>c. other = CodeInstance c \<and> c_class c = c_class self \<and>
                code_eq (c_code self) (c_code c))) \<and>
         (c_class self = ExpressionClass \<and> c_class c = SuiteClass \<longrightarrow>
            \<not> Code_eq code_eq self (CodeInstance c) \<and> \<not> Code_eq code_eq c (CodeInstance self)) \<and>
         (Code_eq code_eq self (CodeInstance c) \<longrightarrow>
            Code_hash code_hash self = Code_hash code_hash c) \<and>
         Code_hash code_hash self = code_hash (c_code self) \<and>
         Code_ne code_eq self other = (\<not> Code_eq code_eq self other)"
  using assms
  by (auto simp: Code_eq_def Code_hash_def Code_ne_def split: py_object.splits)

theorem Code_eq_hash_witness:
  "Code_eq sample_code_eq (sample_expression ''a.html'') (CodeInstance (sample_expression ''b.html'')) \<and>
   Code_hash sample_code_hash (sample_expression ''a.html'') =
     Code_hash sample_code_hash (sample_expression ''b.html'') \<and>
   \<not> Code_eq sample_code_eq (sample_expression ''a.html'') (CodeInstance sample_suite) \<and>
   \<not> Code_eq sample_code_eq sample_suite (CodeInstance (sample_expression ''a.html'')) \<and>
   \<not> Code_eq sample_code_eq (sample_expression ''a.html'') (OtherInstance (Num 0)) \<and>
   Code_ne sample_code_eq (sample_expression ''a.html'') (OtherInstance (Num 0))"
proof -
  have h: "\<forall>x y. sample_code_eq x y \<longrightarrow> sample_code_hash x = sample_code_hash y"
    by (simp add: sample_code_eq_def sample_code_hash_def)
  have e: "Code_eq sample_code_eq (sample_expression ''a.html'')
      (CodeInstance (sample_expression ''b.html''))"
    by (simp add: Code_eq_def sample_code_eq_def sample_expression_def)
  have c: "c_class (sample_expression ''a.html'') = ExpressionClass \<and> c_class sample_suite = SuiteClass"
    by (simp add: sample_expression_def sample_suite_def)
  show ?thesis
    using e c
      Code_eq_hash [OF h, where self = "sample_expression ''a.html''"
        and c = "sample_expression ''b.html''" and other = "OtherInstance (Num 0)"]
      Code_eq_hash [OF h, where self = "sample_expression ''a.html''" and c = sample_suite
        and other = "OtherInstance (Num 0)"]
    by simp
qed

section \<open>Scopes in the rewriter\<close>

lemmas rewrite_defs = bind_res_def return_res_def visitName_def flatten_def CONSTANTS_def add_local_def
  finally_pop_def del_last_def push_names_def extract_names_def process_def visit_generators_def
  visit_maybe_def

text \<open>
  A name in load position becomes a call of \<^verbatim>\<open>_lookup_name\<close> exactly when no entry of
  the scope stack has it, and the stack is left as it is.
\<close>

lemma visitName_load:
  "c = Load \<or> c = AugLoad \<Longrightarrow>
   visit m (Name ident c) ls =
     (if \<exists>s \<in> set ls. ident \<in> s then (Inr (Name ident c), ls)
      else (Inr (lookup_name_call ident), ls))"
  by (auto simp: visitName_def flatten_def)

text \<open>
  C2, at an input where the code departs from it. In
  \<^verbatim>\<open>def f(a, *args): return (a, args)\<close> the read of the parameter \<^verbatim>\<open>a\<close> is left as it
  is, and the read of the variadic parameter \<^verbatim>\<open>args\<close> becomes a call of
  \<^verbatim>\<open>_lookup_name\<close>, which returns a context entry of that name.
\<close>

theorem funcdef_vararg_redirected:
  "visit_stmt Exec
     (FunctionDef ''f'' (Arguments [Name ''a'' Param] (Some ''args'') None [])
        [Return (Some (TupleE [Name ''a'' Load, Name ''args'' Load] Load))] [])
     [CONSTANTS] =
   (Inr (FunctionDef ''f'' (Arguments [Name ''a'' Param] (Some ''args'') None [])
        [Return (Some (TupleE [Name ''a'' Load, lookup_name_call ''args''] Load))] []),
    [CONSTANTS]) \<and>
   py_eval StrictLookup sample_host [''args'' \<mapsto> Str ''from the context''] (lookup_name_call ''args'') =
     Some (Inr (Val (Str ''from the context'')))"
  by (simp add: rewrite_defs lookup_name_call_def evaluate_locals_def LookupBase_globals_def py_apply_def
      as_rt_def lookup_name_def)

text \<open>
  C7, at an input where the code departs from it. In
  \<^verbatim>\<open>[y for x in xs for y in x]\<close> the iterable \<^verbatim>\<open>x\<close> of the second clause is rewritten
  while the stack holds the scope of the second clause only: it becomes a call of
  \<^verbatim>\<open>_lookup_name\<close>, although the first clause binds \<^verbatim>\<open>x\<close>. The pushed scopes are gone
  when the comprehension is done. In general, of two clauses the second is visited
  first, on the stack as the comprehension found it.
\<close>

theorem comprehension_iter_scope:
  "visit_generators [first, second] ls =
     bind_res (second ls) (\<lambda>second' ls.
     bind_res (first ls) (\<lambda>first' ls.
     return_res [first', second'] ls)) \<and>
   visit Eval
     (ListComp (Name ''y'' Load)
        [Comprehension (Name ''x'' Store) (Name ''xs'' Load) [],
         Comprehension (Name ''y'' Store) (Name ''x'' Load) []])
     [CONSTANTS] =
   (Inr (ListComp (Name ''y'' Load)
        [Comprehension (Name ''x'' Store) (lookup_name_call ''xs'') [],
         Comprehension (Name ''y'' Store) (lookup_name_call ''x'') []]),
    [CONSTANTS]) \<and>
   visit_comprehension Eval (Comprehension (Name ''y'' Store) (Name ''x'' Load) []) [CONSTANTS] =
   (Inr (Comprehension (Name ''y'' Store) (lookup_name_call ''x'') []), [CONSTANTS, {''y''}])"
  by (simp add: rewrite_defs split: prod.splits sum.splits)

text \<open>
  C8, at an input where the code departs from it. For
  \<^verbatim>\<open>lambda a, *args, **kwargs: (a, args, kwargs)\<close> the names \<^verbatim>\<open>_extract_names\<close> returns
  are \<^verbatim>\<open>a\<close> alone, and the reads of \<^verbatim>\<open>args\<close> and \<^verbatim>\<open>kwargs\<close> in the body become
  calls of \<^verbatim>\<open>_lookup_name\<close>. In general, what \<^verbatim>\<open>_extract_names\<close> returns does not
  depend on the variadic names.
\<close>

theorem lambda_variadic_not_seeded:
  "extract_names (Arguments args vararg kwarg defaults) =
     extract_names (Arguments args None None defaults) \<and>
   extract_names (Arguments [Name ''a'' Param] (Some ''args'') (Some ''kwargs'') []) = Inr {''a''} \<and>
   visit Eval
     (Lambda (Arguments [Name ''a'' Param] (Some ''args'') (Some ''kwargs'') [])
        (TupleE [Name ''a'' Load, Name ''args'' Load, Name ''kwargs'' Load] Load))
     [CONSTANTS] =
   (Inr (Lambda (Arguments [Name ''a'' Param] (Some ''args'') (Some ''kwargs'') [])
        (TupleE [Name ''a'' Load, lookup_name_call ''args'', lookup_name_call ''kwargs''] Load)),
    [CONSTANTS])"
  by (simp add: rewrite_defs)

end
